theory Spec2Isabelle
  imports Main "HOL-Library.Sublist"
begin

section \<open>Strings and the substring filter\<close>

text \<open>
  A JavaScript string is modelled as a \<^typ>\<open>string\<close>: a list of code units. The line
  terminator is the line feed.
\<close>

definition LF :: char where
  "LF = CHR 0x0A"

text \<open>
  \<^verbatim>\<open>String.prototype.indexOf(searchString)\<close>: the index of the first occurrence of the
  search string, or \<open>-1\<close> when there is none. The empty search string is found at
  index \<open>0\<close> of every string.
\<close>

fun indexOf :: "string \<Rightarrow> string \<Rightarrow> int" where
  "indexOf [] pat = (if pat = [] then 0 else - 1)"
| "indexOf (c # cs) pat =
     (if prefix pat (c # cs) then 0
      else (let r = indexOf cs pat in if r = - 1 then - 1 else r + 1))"

text \<open>
  \<^verbatim>\<open>FilterLineBase\<close> (filter_base.ts): the pattern history, an object from keys to
  arrays of patterns, and the copy of it persisted in the extension's global state.
\<close>

record FilterLineBase =
  history :: "string \<Rightarrow> string list option"
  globalState :: "string \<Rightarrow> string list option"

text \<open>
  \<^verbatim>\<open>FilterLineByInputString\<close> (filter_inputstring.ts): the fields \<^verbatim>\<open>_inputstring\<close>
  (undefined until \<^verbatim>\<open>prepare\<close> has stored a pattern) and \<^verbatim>\<open>notcontain\<close>.
\<close>

record FilterLineByInputString = FilterLineBase +
  inputstring :: "string option"
  notcontain :: bool

text \<open>\<^verbatim>\<open>FilterLineByInputString.matchLine\<close>; \<open>None\<close> is \<^verbatim>\<open>undefined\<close>.\<close>

definition matchLine :: "FilterLineByInputString \<Rightarrow> string \<Rightarrow> string option" where
  "matchLine this line =
     (case inputstring this of
        None \<Rightarrow> None
      | Some pat \<Rightarrow>
          if notcontain this then
            (if indexOf line pat = - 1 then Some line else None)
          else
            (if indexOf line pat \<noteq> - 1 then Some line else None))"

text \<open>
  \<^verbatim>\<open>FilterLineByInputRegex\<close> (filter_inputregex.ts). A compiled \<^verbatim>\<open>RegExp\<close> built by
  \<^verbatim>\<open>new RegExp(pattern)\<close> carries no flags, so \<^verbatim>\<open>line.match(regex) !== null\<close> is a
  function of the line alone; the compiled expression is modelled as that function.
\<close>

type_synonym RegExp = "string \<Rightarrow> bool"

record FilterLineByInputRegex = FilterLineBase +
  regex :: "RegExp option"
  notmatch :: bool

definition matchLineRegex :: "FilterLineByInputRegex \<Rightarrow> string \<Rightarrow> string option" where
  "matchLineRegex this line =
     (case regex this of
        None \<Rightarrow> None
      | Some re \<Rightarrow>
          if notmatch this then
            (if \<not> re line then Some line else None)
          else
            (if re line then Some line else None))"

section \<open>The stream stages\<close>

text \<open>
  Modelled from the spec: the \<^verbatim>\<open>FilterStream\<close> transform of \<^verbatim>\<open>./util\<close>, which is not
  among the sources. The spec describes it as two stages, LineSplitter and
  PredicateFilterTransform.

  LineSplitter keeps at most one partial line. Feeding a chunk emits every line the
  chunk completes, terminator included, and leaves the rest in the buffer.
\<close>

fun LineSplitter_feed :: "string \<Rightarrow> string \<Rightarrow> string list \<times> string" where
  "LineSplitter_feed buf [] = ([], buf)"
| "LineSplitter_feed buf (c # cs) =
     (if c = LF then
        (case LineSplitter_feed [] cs of (ls, b) \<Rightarrow> ((buf @ [c]) # ls, b))
      else LineSplitter_feed (buf @ [c]) cs)"

text \<open>
  Modelled from the spec: at the end of the input the buffered partial content, if any,
  is emitted as the final line.
\<close>

definition LineSplitter_flush :: "string \<Rightarrow> string list" where
  "LineSplitter_flush buf = (if buf = [] then [] else [buf])"

text \<open>
  Modelled from the spec: the splitter over the whole chunk sequence of a stream, from a
  given buffer; the stream ends after the last chunk.
\<close>

fun LineSplitter_run :: "string \<Rightarrow> string list \<Rightarrow> string list" where
  "LineSplitter_run buf [] = LineSplitter_flush buf"
| "LineSplitter_run buf (chunk # chunks) =
     (case LineSplitter_feed buf chunk of (ls, b) \<Rightarrow> ls @ LineSplitter_run b chunks)"

text \<open>Modelled from the spec: the splitter starts with an empty buffer.\<close>

definition LineSplitter :: "string list \<Rightarrow> string list" where
  "LineSplitter chunks = LineSplitter_run [] chunks"

text \<open>
  Modelled from the spec: PredicateFilterTransform strips the terminator of a line,
  evaluates the predicate on the content, and re-appends the terminator to an emitted
  line.
\<close>

definition strip_terminator :: "string \<Rightarrow> string \<times> string" where
  "strip_terminator line =
     (if line \<noteq> [] \<and> last line = LF then (butlast line, [LF]) else (line, []))"

definition line_content :: "string \<Rightarrow> string" where
  "line_content line = fst (strip_terminator line)"

definition PredicateFilterTransform :: "(string \<Rightarrow> bool) \<Rightarrow> string \<Rightarrow> string option" where
  "PredicateFilterTransform predicate line =
     (case strip_terminator line of
        (content, terminator) \<Rightarrow>
          if predicate content then Some (content @ terminator) else None)"

text \<open>
  Modelled from the spec: the transform over a sequence of lines; a skipped line leaves
  nothing in the output.
\<close>

definition transform_lines :: "(string \<Rightarrow> bool) \<Rightarrow> string list \<Rightarrow> string list" where
  "transform_lines predicate ls = List.map_filter (PredicateFilterTransform predicate) ls"

text \<open>
  Modelled from the spec: \<^verbatim>\<open>FilterStream\<close> is the splitter followed by the transform.
\<close>

definition FilterStream :: "(string \<Rightarrow> bool) \<Rightarrow> string list \<Rightarrow> string list" where
  "FilterStream predicate chunks = transform_lines predicate (LineSplitter chunks)"

text \<open>
  The lines of a text, by recursion on the text itself: the specification the
  buffering splitter is compared with.
\<close>

fun text_lines :: "string \<Rightarrow> string list" where
  "text_lines [] = []"
| "text_lines (c # cs) =
     (if c = LF then [c] # text_lines cs
      else (case text_lines cs of [] \<Rightarrow> [[c]] | l # ls \<Rightarrow> (c # l) # ls))"


text \<open>
  The shape of a list of lines: no line is empty, a line feed stands only at the end of
  a line, and every line but the last ends with one.
\<close>

fun lines_ok :: "string list \<Rightarrow> bool" where
  "lines_ok [] = True"
| "lines_ok [l] = (l \<noteq> [] \<and> LF \<notin> set (butlast l))"
| "lines_ok (l # ls) = (l \<noteq> [] \<and> LF \<notin> set (butlast l) \<and> last l = LF \<and> lines_ok ls)"

text \<open>
  Modelled from the spec: the transform emits a line iff the predicate holds of it. The
  callback that \<^verbatim>\<open>Filter.process\<close> hands to the transform answers with the line or
  with \<^verbatim>\<open>undefined\<close>; the predicate holds iff the answer is not \<^verbatim>\<open>undefined\<close>.
\<close>

definition accepts :: "(string \<Rightarrow> string option) \<Rightarrow> string \<Rightarrow> bool" where
  "accepts filterCallback line = (filterCallback line \<noteq> None)"

section \<open>The host\<close>

text \<open>The fields of a \<^verbatim>\<open>vscode.Uri\<close> that the code reads.\<close>

record Uri =
  scheme :: string
  path :: string
  fsPath :: string

record TextDocument =
  uri :: Uri
  isDirty :: bool

text \<open>The two kinds of input stream that \<^verbatim>\<open>createInputStream\<close> builds.\<close>

datatype Readable = TextDocumentReadStream TextDocument | FsReadStream string

text \<open>The two errors the code throws itself.\<close>

datatype error = TextDocumentNotFound | TextEditorNotOpen

text \<open>A caught JavaScript exception; the code reads its \<^verbatim>\<open>name\<close> only.\<close>

datatype JsError = JsError (err_name: "string option")

text \<open>The calls the code makes to its host, in the order it makes them.\<close>

datatype event =
    AppendLine string
  | ShowInformationMessage string
  | ShowErrorMessage string
  | ShowWarningMessage string
  | WriteStream string "string list"
  | MoveAsync string string
  | ExecuteCommand string
  | EditorInsert string
  | UnlinkAsync string
  | OpenTextDocument Uri
  | ShowTextDocument Uri

text \<open>
  Everything the code asks of its environment during one invocation: the open
  documents, the editor, the configuration, Node's \<^verbatim>\<open>path\<close> and \<^verbatim>\<open>os\<close> modules, the
  clock, what the streams deliver, and the outcome of each call whose failure the
  code handles. A call whose rejection the code does not catch is taken to complete.
  \<^verbatim>\<open>TextDocumentReadStream\<close>, \<^verbatim>\<open>statAsync\<close>, \<^verbatim>\<open>moveAsync\<close> and \<^verbatim>\<open>unlinkAsync\<close> of
  \<^verbatim>\<open>./util\<close> are not among the sources: what the stream delivers, the size found, and
  whether the move or the removal fails are fields of the host.
\<close>

record Host =
  textDocuments :: "TextDocument list"
  activeTextEditor :: "Uri option"
  usrChoice :: "string option"
  RegExp_new :: "string \<Rightarrow> string + RegExp"
  saveAfterFiltering :: bool
  historySize :: nat
  tmpdir :: string
  sep :: char
  extname :: "string \<Rightarrow> string"
  timestamp :: string
  Uri_parse :: "string \<Rightarrow> Uri"
  chunks_of :: "Readable \<Rightarrow> string list"
  stat_size :: "string \<Rightarrow> nat"
  move_fails :: bool
  untitled_editor :: bool
  tmp_chunks :: "string list"
  edit_error :: "nat \<Rightarrow> JsError option"
  unlink_error :: "JsError option"

text \<open>
  \<^verbatim>\<open>showInfo\<close>, \<^verbatim>\<open>showError\<close> and \<^verbatim>\<open>showWarning\<close> of \<^verbatim>\<open>FilterLineBase\<close>: a log line,
  then the notification.
\<close>

definition showInfo :: "string \<Rightarrow> event list" where
  "showInfo text = [AppendLine text, ShowInformationMessage text]"

definition showError :: "string \<Rightarrow> event list" where
  "showError text = [AppendLine text, ShowErrorMessage text]"

definition showWarning :: "string \<Rightarrow> event list" where
  "showWarning text = [AppendLine text, ShowWarningMessage text]"

section \<open>JavaScript string and array helpers\<close>

text \<open>
  \<^verbatim>\<open>s.split(c)\<close> for a separator of one character: the pieces between the
  separators, at least one piece.
\<close>

fun str_split :: "char \<Rightarrow> string \<Rightarrow> string list" where
  "str_split c [] = [[]]"
| "str_split c (x # xs) =
     (if x = c then [] # str_split c xs
      else (case str_split c xs of [] \<Rightarrow> [[x]] | w # ws \<Rightarrow> (x # w) # ws))"

text \<open>\<^verbatim>\<open>a.join(c)\<close>.\<close>

fun str_join :: "char \<Rightarrow> string list \<Rightarrow> string" where
  "str_join c [] = []"
| "str_join c [w] = w"
| "str_join c (w # ws) = w @ c # str_join c ws"

section \<open>The class Filter\<close>

definition TAIL :: string where
  "TAIL = ''filterline''"

text \<open>\<^verbatim>\<open>Filter.findOpenedDoc\<close>: the first open document whose URI has the source's path.\<close>

definition findOpenedDoc :: "Host \<Rightarrow> Uri \<Rightarrow> TextDocument option" where
  "findOpenedDoc h fromUri = List.find (\<lambda>el. path (uri el) = path fromUri) (textDocuments h)"

text \<open>\<^verbatim>\<open>Filter.createInputStream\<close>.\<close>

definition createInputStream :: "Host \<Rightarrow> Uri \<Rightarrow> event list \<times> (error + Readable)" where
  "createInputStream h fromUri =
     (if scheme fromUri = ''file'' then
        (case findOpenedDoc h fromUri of
           Some doc \<Rightarrow>
             if isDirty doc then ([], Inr (TextDocumentReadStream doc))
             else ([], Inr (FsReadStream (fsPath fromUri)))
         | None \<Rightarrow> ([], Inr (FsReadStream (fsPath fromUri))))
      else
        (case findOpenedDoc h fromUri of
           None \<Rightarrow>
             ([AppendLine ''Unable to find open document for provided URI''],
              Inl TextDocumentNotFound)
         | Some doc \<Rightarrow> ([], Inr (TextDocumentReadStream doc))))"

text \<open>
  The first half of \<^verbatim>\<open>Filter.process\<close>: the base name and the extension of the output
  file, and its path in the temporary directory.
\<close>

definition outBase :: "Host \<Rightarrow> Uri \<Rightarrow> string" where
  "outBase h fromUri =
     (if scheme fromUri \<noteq> ''file'' then path fromUri
      else str_join (CHR ''.'')
             (butlast (str_split (CHR ''.'') (last (str_split (sep h) (fsPath fromUri))))))"

definition outExt :: "Host \<Rightarrow> Uri \<Rightarrow> string" where
  "outExt h fromUri =
     (let ext = extname h (path fromUri) in
      if scheme fromUri \<noteq> ''file'' then (if ext = [] then ''.txt'' else ext) else ext)"

definition outName :: "Host \<Rightarrow> Uri \<Rightarrow> string" where
  "outName h fromUri = outBase h fromUri @ ''.'' @ TAIL @ ''-'' @ timestamp h @ outExt h fromUri"

definition outPath :: "Host \<Rightarrow> Uri \<Rightarrow> string" where
  "outPath h fromUri = tmpdir h @ [sep h] @ outName h fromUri"

text \<open>
  \<^verbatim>\<open>Filter.process\<close>. The input stream is built first; when that throws, no write stream
  is created. Otherwise the lines the transform emits are written to the output path.
\<close>

definition process :: "Host \<Rightarrow> (string \<Rightarrow> string option) \<Rightarrow> Uri \<Rightarrow> event list \<times> (error + Uri)" where
  "process h filterCallback fromUri =
     (case createInputStream h fromUri of
        (ev, Inl e) \<Rightarrow> (ev, Inl e)
      | (ev, Inr input) \<Rightarrow>
          (ev @ [WriteStream (outPath h fromUri)
                   (FilterStream (accepts filterCallback) (chunks_of h input))],
           Inr (Uri_parse h (''file:'' @ outPath h fromUri))))"

section \<open>The class FilterLineBase\<close>

definition LARGE_MODE_THR :: nat where
  "LARGE_MODE_THR = 30 * 1024 * 1024"

text \<open>\<^verbatim>\<open>FilterLineBase.addToHistory\<close>.\<close>

definition addToHistory ::
  "Host \<Rightarrow> string \<Rightarrow> string \<Rightarrow> 'a FilterLineBase_scheme \<Rightarrow> 'a FilterLineBase_scheme \<times> event list" where
  "addToHistory h key newEl this =
     (case history this key of
        None \<Rightarrow> (this, [AppendLine (''History doesn't contain '' @ [CHR 0x27] @ key @ [CHR 0x27] @ '' field'')])
      | Some els \<Rightarrow>
          (let maxSz = historySize h;
               els1 = (if length els \<ge> maxSz then take maxSz els else els)
           in if newEl \<notin> set els1 then
                (let hist = (history this)(key \<mapsto> newEl # els1)
                 in (this\<lparr>history := hist, globalState := hist\<rparr>, []))
              else
                (this\<lparr>history := (history this)(key \<mapsto> newEl # remove1 newEl els1)\<rparr>, [])))"

text \<open>\<^verbatim>\<open>FilterLineBase.getSourceUri\<close>.\<close>

definition getSourceUri :: "Host \<Rightarrow> Uri option \<Rightarrow> event list \<times> Uri option" where
  "getSourceUri h fileUri =
     (case fileUri of
        None \<Rightarrow>
          (case activeTextEditor h of
             None \<Rightarrow>
               (showError (''No file selected or file is too large. For large files, '' @
                  ''use file's context menu. For more information please visit README''),
                None)
           | Some u \<Rightarrow> ([], Some u))
      | Some u \<Rightarrow> ([], Some u))"

text \<open>
  The loop of \<^verbatim>\<open>filter_\<close> that inserts the chunks of the temporary file into the new
  editor, one edit per chunk, until an edit throws.
\<close>

fun insert_chunks :: "(nat \<Rightarrow> JsError option) \<Rightarrow> nat \<Rightarrow> string list \<Rightarrow> event list \<times> JsError option" where
  "insert_chunks err i [] = ([], None)"
| "insert_chunks err i (chunk # chunks) =
     (case err i of
        Some e \<Rightarrow> ([EditorInsert chunk], Some e)
      | None \<Rightarrow>
          (case insert_chunks err (Suc i) chunks of (ev, r) \<Rightarrow> (EditorInsert chunk # ev, r)))"

text \<open>The \<^verbatim>\<open>catch\<close> of that loop: \<^verbatim>\<open>e.name !== undefined && e.name === 'DISPOSED'\<close>.\<close>

definition disposed :: "JsError \<Rightarrow> bool" where
  "disposed e = (err_name e = Some ''DISPOSED'')"

text \<open>
  The \<^verbatim>\<open>try\<close> block of \<^verbatim>\<open>filter_\<close>: the calls made and the final value of
  \<^verbatim>\<open>processed\<close>.
\<close>

definition stream_into_editor :: "Host \<Rightarrow> Uri \<Rightarrow> event list \<times> bool" where
  "stream_into_editor h tmpPath =
     (case insert_chunks (edit_error h) 0 (tmp_chunks h) of
        (ev, Some e) \<Rightarrow> (ev, disposed e)
      | (ev, None) \<Rightarrow>
          (case unlink_error h of
             None \<Rightarrow> (ev @ [UnlinkAsync (fsPath tmpPath)], True)
           | Some e \<Rightarrow> (ev @ [UnlinkAsync (fsPath tmpPath)], disposed e)))"

text \<open>The end of \<^verbatim>\<open>filter_\<close>, from \<^verbatim>\<open>if (!processed)\<close> on.\<close>

definition finish :: "Uri \<Rightarrow> bool \<Rightarrow> event list" where
  "finish dstPath processed =
     (if \<not> processed then [OpenTextDocument dstPath, ShowTextDocument dstPath] else []) @
     showInfo ''Filtering completed :)''"

text \<open>
  \<^verbatim>\<open>FilterLineBase.filter_\<close> (a name cannot end with an underscore here). The
  callback is the \<^verbatim>\<open>matchLine\<close> of the object.
\<close>

definition filter_private :: "Host \<Rightarrow> (string \<Rightarrow> string option) \<Rightarrow> Uri \<Rightarrow> event list \<times> (error + unit)" where
  "filter_private h filterCallback uri0 =
     (case process h filterCallback uri0 of
        (ev, Inl e) \<Rightarrow> (ev, Inl e)
      | (ev, Inr tmpPath) \<Rightarrow>
          (let largeModeFlag = (stat_size h (fsPath tmpPath) > LARGE_MODE_THR);
               saveFlag = saveAfterFiltering h
           in if saveFlag then
                (if scheme uri0 \<noteq> ''file'' then
                   (ev @ showWarning ''Don't know where to save file. Saved into temporary folder''
                       @ finish tmpPath False, Inr ())
                 else
                   (let dstBase = last (str_split (sep h) (fsPath tmpPath));
                        dstPath = Uri_parse h
                          (str_join (sep h) (butlast (str_split (sep h) (fsPath uri0)))
                             @ [sep h] @ dstBase)
                    in if move_fails h then
                         (ev @ [MoveAsync (fsPath tmpPath) (fsPath dstPath)]
                             @ showError (''Error occurred on save file to origin folder. '' @
                                 ''Saved into temporary folder'')
                             @ finish tmpPath False, Inr ())
                       else
                         (ev @ [MoveAsync (fsPath tmpPath) (fsPath dstPath)]
                             @ finish dstPath False, Inr ())))
              else if largeModeFlag then
                (ev @ showWarning (''Filtered content is larger then Visual Studio Code '' @
                       ''limitations. Saved into temporary folder'')
                    @ finish tmpPath False, Inr ())
              else if \<not> untitled_editor h then
                (ev @ [ExecuteCommand ''workbench.action.files.newUntitledFile''],
                 Inl TextEditorNotOpen)
              else
                (case stream_into_editor h tmpPath of
                   (ev1, processed) \<Rightarrow>
                     (ev @ [ExecuteCommand ''workbench.action.files.newUntitledFile''] @ ev1
                         @ finish tmpPath processed, Inr ()))))"

text \<open>
  \<^verbatim>\<open>FilterLineByInputString.prepare\<close>. The result carries the argument the callback is
  called with; it is \<open>None\<close> when the pick list is dismissed and the callback never
  called.
\<close>

definition HIST_KEY_inputStr :: string where
  "HIST_KEY_inputStr = ''inputStr''"

definition prepare ::
  "Host \<Rightarrow> FilterLineByInputString \<Rightarrow> FilterLineByInputString \<times> event list \<times> bool option" where
  "prepare h this =
     (case usrChoice h of
        None \<Rightarrow> (this, [], None)
      | Some choice \<Rightarrow>
          if choice = [] then (this, [AppendLine ''User input is an empty''], Some False)
          else
            (case addToHistory h HIST_KEY_inputStr choice this of
               (this1, ev) \<Rightarrow>
                 (this1\<lparr>inputstring := Some choice\<rparr>,
                  AppendLine (''User input: '' @ choice) # ev, Some True)))"

text \<open>
  \<^verbatim>\<open>FilterLineByInputRegex.prepare\<close>; \<open>Inl\<close> of \<^verbatim>\<open>RegExp_new\<close> is the text of the
  syntax error that \<^verbatim>\<open>new RegExp\<close> throws.
\<close>

definition HIST_KEY_inputRegex :: string where
  "HIST_KEY_inputRegex = ''inputRegex''"

definition prepareRegex ::
  "Host \<Rightarrow> FilterLineByInputRegex \<Rightarrow> FilterLineByInputRegex \<times> event list \<times> bool option" where
  "prepareRegex h this =
     (case usrChoice h of
        None \<Rightarrow> (this, [], None)
      | Some choice \<Rightarrow>
          if choice = [] then (this, [AppendLine ''User input is an empty''], Some False)
          else
            (case RegExp_new h choice of
               Inl e \<Rightarrow>
                 (this,
                  AppendLine (''Regex is incorrect: '' @ e) # showError (''Regex incorrect :'' @ e),
                  Some False)
             | Inr re \<Rightarrow>
                 (case addToHistory h HIST_KEY_inputRegex choice (this\<lparr>regex := Some re\<rparr>) of
                    (this1, ev) \<Rightarrow> (this1, ev, Some True))))"

text \<open>
  \<^verbatim>\<open>FilterLineBase.filter\<close>, with the \<^verbatim>\<open>prepare\<close> and \<^verbatim>\<open>matchLine\<close> of the subclass as
  arguments. The result is the object afterwards, the calls made, and the error that
  ended the run, if any.
\<close>

definition filter_command ::
  "(Host \<Rightarrow> 's \<Rightarrow> 's \<times> event list \<times> bool option) \<Rightarrow> ('s \<Rightarrow> string \<Rightarrow> string option) \<Rightarrow>
     Host \<Rightarrow> 's \<Rightarrow> Uri option \<Rightarrow> 's \<times> event list \<times> error option" where
  "filter_command prepare_m matchLine_m h this filePath =
     (case getSourceUri h filePath of
        (ev, None) \<Rightarrow> (this, ev, None)
      | (ev, Some srcUri) \<Rightarrow>
          (case prepare_m h this of
             (this1, ev1, answer) \<Rightarrow>
               (let evs = ev @ [AppendLine (''will filter file: '' @ path srcUri)] @ ev1
                in case answer of
                     None \<Rightarrow> (this1, evs, None)
                   | Some succeed \<Rightarrow>
                       (let evs1 = evs @
                          [AppendLine (''Succeed '' @ (if succeed then ''true'' else ''false''))]
                        in if \<not> succeed then (this1, evs1, None)
                           else
                             (case filter_private h (matchLine_m this1) srcUri of
                                (ev2, Inl e) \<Rightarrow> (this1, evs1 @ ev2, Some e)
                              | (ev2, Inr u) \<Rightarrow> (this1, evs1 @ ev2, None))))))"

section \<open>Concrete hosts for the examples\<close>

text \<open>
  \<^verbatim>\<open>path.extname\<close> of Node on POSIX, for a path that does not end with a separator
  and whose last segment is not \<^verbatim>\<open>..\<close>: the text from the last dot of the last segment
  on, empty when that segment has no dot or only a leading one.
\<close>

definition posix_extname :: "string \<Rightarrow> string" where
  "posix_extname p =
     (let pieces = str_split (CHR ''.'') (last (str_split (CHR ''/'') p))
      in if length pieces < 2 \<or> (length pieces = 2 \<and> hd pieces = []) then []
         else CHR ''.'' # last pieces)"

text \<open>
  \<^verbatim>\<open>Uri.parse\<close> on the strings of the examples: plain POSIX paths, with or without the
  prefix \<^verbatim>\<open>file:\<close>.
\<close>

definition posix_parse :: "string \<Rightarrow> Uri" where
  "posix_parse s =
     (let p = (if prefix ''file:'' s then drop 5 s else s)
      in \<lparr>scheme = ''file'', path = p, fsPath = p\<rparr>)"

text \<open>
  A POSIX host with no open document, saving switched off, and a small output. Its
  regular expressions are literal texts, and \<^verbatim>\<open>(\<close> alone does not compile.
\<close>

definition example_host :: Host where
  "example_host =
     \<lparr>textDocuments = [],
      activeTextEditor = None,
      usrChoice = Some ''an'',
      RegExp_new = (\<lambda>p. if p = ''('' then Inl ''SyntaxError: Unterminated group''
                         else Inr (\<lambda>line. sublist p line)),
      saveAfterFiltering = False,
      historySize = 10,
      tmpdir = ''/tmp'',
      sep = CHR ''/'',
      extname = posix_extname,
      timestamp = ''1700000000000'',
      Uri_parse = posix_parse,
      chunks_of = (\<lambda>r. [''apple\<newline>ban'', ''ana\<newline>grape\<newline>'']),
      stat_size = (\<lambda>p. 7),
      move_fails = False,
      untitled_editor = True,
      tmp_chunks = [''banana\<newline>''],
      edit_error = (\<lambda>i. None),
      unlink_error = None\<rparr>"

definition notes_uri :: Uri where
  "notes_uri = \<lparr>scheme = ''file'', path = ''/home/u/notes.txt'', fsPath = ''/home/u/notes.txt''\<rparr>"

definition makefile_uri :: Uri where
  "makefile_uri = \<lparr>scheme = ''file'', path = ''/home/u/Makefile'', fsPath = ''/home/u/Makefile''\<rparr>"

definition untitled_uri :: Uri where
  "untitled_uri = \<lparr>scheme = ''untitled'', path = ''Untitled-1'', fsPath = ''Untitled-1''\<rparr>"

text \<open>
  Two open documents with the path of \<open>notes_uri\<close>: the read-only original that a
  source-control diff shows, listed first, and the edited file itself.
\<close>

definition git_doc :: TextDocument where
  "git_doc = \<lparr>uri = \<lparr>scheme = ''git'', path = ''/home/u/notes.txt'', fsPath = ''/home/u/notes.txt''\<rparr>,
              isDirty = False\<rparr>"

definition dirty_doc :: TextDocument where
  "dirty_doc = \<lparr>uri = notes_uri, isDirty = True\<rparr>"

definition shadow_host :: Host where
  "shadow_host = example_host\<lparr>textDocuments := [git_doc, dirty_doc]\<rparr>"

definition large_host :: Host where
  "large_host = example_host\<lparr>stat_size := (\<lambda>p. 31457281)\<rparr>"

definition readonly_host :: Host where
  "readonly_host = example_host\<lparr>saveAfterFiltering := True, move_fails := True\<rparr>"

definition example_filter :: FilterLineByInputString where
  "example_filter =
     \<lparr>history = Map.empty(''inputStr'' \<mapsto> []), globalState = Map.empty(''inputStr'' \<mapsto> []),
      inputstring = Some ''an'', notcontain = False\<rparr>"

definition example_regex_filter :: FilterLineByInputRegex where
  "example_regex_filter =
     \<lparr>history = Map.empty(''inputRegex'' \<mapsto> []), globalState = Map.empty(''inputRegex'' \<mapsto> []),
      regex = None, notmatch = False\<rparr>"

text \<open>The notifications of warning severity among the calls.\<close>

fun is_warning :: "event \<Rightarrow> bool" where
  "is_warning (ShowWarningMessage text) = True"
| "is_warning e = False"

text \<open>The calls that put content into an editor or remove a file.\<close>

fun is_insert :: "event \<Rightarrow> bool" where
  "is_insert (EditorInsert chunk) = True"
| "is_insert e = False"

fun is_unlink_or_move :: "event \<Rightarrow> bool" where
  "is_unlink_or_move (UnlinkAsync p) = True"
| "is_unlink_or_move (MoveAsync p q) = True"
| "is_unlink_or_move e = False"

section \<open>Substring search\<close>

lemma indexOf_lower_bound: "- 1 \<le> indexOf s pat"
  by (induction s) (auto simp: Let_def)

lemma indexOf_found_iff: "indexOf s pat \<noteq> - 1 \<longleftrightarrow> sublist pat s"
proof (induction s)
  case Nil
  then show ?case by simp
next
  case (Cons c cs)
  have "- 1 \<le> indexOf cs pat" by (rule indexOf_lower_bound)
  then have "indexOf cs pat + 1 \<noteq> - 1" by arith
  with Cons show ?case
    by (auto simp: Let_def sublist_Cons_right)
qed

lemma matchLine_contains:
  "matchLine (this\<lparr>inputstring := Some pat, notcontain := False\<rparr>) line =
     (if sublist pat line then Some line else None)"
  using indexOf_found_iff [of line pat] by (auto simp: matchLine_def)

lemma matchLine_notcontain:
  "matchLine (this\<lparr>inputstring := Some pat, notcontain := True\<rparr>) line =
     (if sublist pat line then None else Some line)"
  using indexOf_found_iff [of line pat] by (auto simp: matchLine_def)

lemma matchLine_answer: "matchLine this line = None \<or> matchLine this line = Some line"
  by (simp add: matchLine_def split: option.split)

lemma matchLineRegex_answer: "matchLineRegex this line = None \<or> matchLineRegex this line = Some line"
  by (simp add: matchLineRegex_def split: option.split)

section \<open>The line splitter against the lines of the text\<close>

lemma text_lines_no_LF: "LF \<notin> set b \<Longrightarrow> text_lines b = LineSplitter_flush b"
  by (induction b) (auto simp: LineSplitter_flush_def split: list.splits)

lemma text_lines_line:
  "LF \<notin> set buf \<Longrightarrow> text_lines (buf @ LF # rest) = (buf @ [LF]) # text_lines rest"
  by (induction buf) auto

lemma text_lines_Nil_iff: "text_lines t = [] \<longleftrightarrow> t = []"
  by (cases t) (auto split: list.splits)

lemma concat_text_lines: "concat (text_lines t) = t"
  by (induction t) (auto split: list.splits)

lemma LineSplitter_feed_lines:
  "LF \<notin> set buf \<Longrightarrow> LineSplitter_feed buf t = (ls, b) \<Longrightarrow>
     LF \<notin> set b \<and> (\<forall>rest. text_lines (buf @ t @ rest) = ls @ text_lines (b @ rest))"
proof (induction t arbitrary: buf ls b)
  case Nil
  then show ?case by simp
next
  case (Cons c cs)
  show ?case
  proof (cases "c = LF")
    case True
    obtain ls' b' where f: "LineSplitter_feed [] cs = (ls', b')" by force
    with Cons.prems True have eq: "ls = (buf @ [LF]) # ls'" "b = b'" by auto
    from Cons.IH [of "[]" ls' b'] f
    have "LF \<notin> set b'" and "\<And>rest. text_lines (cs @ rest) = ls' @ text_lines (b' @ rest)"
      by auto
    with eq True Cons.prems(1) show ?thesis by (simp add: text_lines_line)
  next
    case False
    with Cons.prems have f: "LineSplitter_feed (buf @ [c]) cs = (ls, b)" by simp
    from Cons.prems(1) False have "LF \<notin> set (buf @ [c])" by auto
    from Cons.IH [OF this f] show ?thesis by simp
  qed
qed

lemma LineSplitter_run_lines:
  "LF \<notin> set buf \<Longrightarrow> LineSplitter_run buf chunks = text_lines (buf @ concat chunks)"
proof (induction chunks arbitrary: buf)
  case Nil
  then show ?case by (simp add: text_lines_no_LF)
next
  case (Cons ch chs)
  obtain ls b where f: "LineSplitter_feed buf ch = (ls, b)" by force
  from LineSplitter_feed_lines [OF Cons.prems f]
  have b: "LF \<notin> set b"
    and t: "text_lines (buf @ ch @ concat chs) = ls @ text_lines (b @ concat chs)"
    by auto
  from Cons.IH [OF b] f t show ?case by simp
qed

lemma LineSplitter_text_lines: "LineSplitter chunks = text_lines (concat chunks)"
  by (simp add: LineSplitter_def LineSplitter_run_lines)

lemma text_lines_append:
  "pre = [] \<or> last pre = LF \<Longrightarrow> text_lines (pre @ rest) = text_lines pre @ text_lines rest"
proof (induction pre)
  case Nil
  then show ?case by simp
next
  case (Cons c cs)
  show ?case
  proof (cases "cs = []")
    case True
    with Cons.prems show ?thesis by simp
  next
    case False
    with Cons.prems have "last cs = LF" by simp
    with Cons.IH have ih: "text_lines (cs @ rest) = text_lines cs @ text_lines rest" by simp
    from False have "text_lines cs \<noteq> []" by (simp add: text_lines_Nil_iff)
    with ih show ?thesis by (auto split: list.splits)
  qed
qed

section \<open>The transform as a filter\<close>

lemma strip_terminator_append: "strip_terminator l = (c, t) \<Longrightarrow> c @ t = l"
  by (auto simp: strip_terminator_def split: if_splits) (metis append_butlast_last_id)

lemma PredicateFilterTransform_line:
  "PredicateFilterTransform p l = (if p (line_content l) then Some l else None)"
  by (cases "strip_terminator l")
    (auto simp: PredicateFilterTransform_def line_content_def dest: strip_terminator_append)

lemma transform_lines_filter: "transform_lines p ls = filter (\<lambda>l. p (line_content l)) ls"
  by (induction ls)
    (auto simp: transform_lines_def List.map_filter_def PredicateFilterTransform_line)

lemma FilterStream_filter:
  "FilterStream p chunks = filter (\<lambda>l. p (line_content l)) (text_lines (concat chunks))"
  by (simp add: FilterStream_def transform_lines_filter LineSplitter_text_lines)

section \<open>The shape of the emitted lines\<close>

lemma lines_ok_text_lines: "lines_ok (text_lines t)"
proof (induction t)
  case Nil
  then show ?case by simp
next
  case (Cons c cs)
  then show ?case
    by (cases "text_lines cs"; cases "tl (text_lines cs)") (auto split: if_splits)
qed

lemma lines_ok_Cons:
  "l \<noteq> [] \<Longrightarrow> LF \<notin> set (butlast l) \<Longrightarrow> last l = LF \<Longrightarrow> lines_ok ls \<Longrightarrow> lines_ok (l # ls)"
  by (cases ls) auto

lemma lines_ok_filter: "lines_ok ls \<Longrightarrow> lines_ok (filter P ls)"
proof (induction ls rule: lines_ok.induct)
  case 1
  then show ?case by simp
next
  case (2 l)
  then show ?case by simp
next
  case (3 l v va)
  then have "lines_ok (filter P (v # va))" by simp
  with 3 show ?case by (auto intro: lines_ok_Cons)
qed

lemma text_lines_terminated:
  "l \<noteq> [] \<Longrightarrow> last l = LF \<Longrightarrow> LF \<notin> set (butlast l) \<Longrightarrow>
     text_lines (l @ rest) = l # text_lines rest"
  by (cases l rule: rev_cases) (auto simp: text_lines_line)

lemma text_lines_single:
  assumes "l \<noteq> []" "LF \<notin> set (butlast l)"
  shows "text_lines l = [l]"
proof (cases "last l = LF")
  case True
  with assms text_lines_terminated [of l "[]"] show ?thesis by simp
next
  case False
  with assms have "LF \<notin> set l" by (cases l rule: rev_cases) auto
  then show ?thesis using assms by (simp add: text_lines_no_LF LineSplitter_flush_def)
qed

lemma text_lines_concat: "lines_ok ls \<Longrightarrow> text_lines (concat ls) = ls"
proof (induction ls rule: lines_ok.induct)
  case 1
  then show ?case by simp
next
  case (2 l)
  then show ?case by (simp add: text_lines_single)
next
  case (3 l v va)
  then have l: "l \<noteq> []" "LF \<notin> set (butlast l)" "last l = LF"
    and ih: "text_lines (concat (v # va)) = v # va"
    by auto
  from text_lines_terminated [OF l(1) l(3) l(2), of "concat (v # va)"] ih
  show ?case by simp
qed

section \<open>The claims about the stream stages\<close>

text \<open>
  C1. Whatever the chunks and the predicate, the pipeline writes exactly the lines of
  the source text on whose content the predicate holds, in the order of the source: the
  output is the source's list of lines filtered, a subsequence of it. \<^verbatim>\<open>Filter.process\<close>
  writes that list to the output path.
\<close>

theorem FilterStream_source_lines:
  "FilterStream predicate chunks =
     filter (\<lambda>line. predicate (line_content line)) (text_lines (concat chunks)) \<and>
   subseq (FilterStream predicate chunks) (text_lines (concat chunks)) \<and>
   process h filterCallback fromUri =
     (case createInputStream h fromUri of
        (ev, Inl e) \<Rightarrow> (ev, Inl e)
      | (ev, Inr input) \<Rightarrow>
          (ev @ [WriteStream (outPath h fromUri)
                   (filter (\<lambda>line. filterCallback (line_content line) \<noteq> None)
                      (text_lines (concat (chunks_of h input))))],
           Inr (Uri_parse h (''file:'' @ outPath h fromUri))))"
proof -
  have "\<And>cs. FilterStream (accepts filterCallback) cs =
      filter (\<lambda>line. filterCallback (line_content line) \<noteq> None) (text_lines (concat cs))"
    by (simp add: FilterStream_filter accepts_def)
  then show ?thesis
    by (simp add: FilterStream_filter process_def split: prod.split sum.split)
qed

text \<open>
  C2. Two chunk sequences with the same concatenation give the same lines. When the
  text ends with content that has no terminator, that content is the last line emitted,
  after the lines of the text before it.
\<close>

theorem LineSplitter_chunk_independent:
  "(concat chunks1 = concat chunks2 \<longrightarrow> LineSplitter chunks1 = LineSplitter chunks2) \<and>
   ((pre = [] \<or> last pre = LF) \<and> rest \<noteq> [] \<and> LF \<notin> set rest \<and> concat chunks = pre @ rest \<longrightarrow>
      LineSplitter chunks = LineSplitter [pre] @ [rest])"
proof (intro conjI impI)
  assume "concat chunks1 = concat chunks2"
  then show "LineSplitter chunks1 = LineSplitter chunks2"
    by (simp add: LineSplitter_text_lines)
next
  assume a: "(pre = [] \<or> last pre = LF) \<and> rest \<noteq> [] \<and> LF \<notin> set rest \<and> concat chunks = pre @ rest"
  then have "text_lines (pre @ rest) = text_lines pre @ text_lines rest"
    by (simp add: text_lines_append)
  moreover from a have "text_lines rest = [rest]"
    by (simp add: text_lines_no_LF LineSplitter_flush_def)
  ultimately show "LineSplitter chunks = LineSplitter [pre] @ [rest]"
    using a by (simp add: LineSplitter_text_lines)
qed

theorem LineSplitter_chunk_independent_witness:
  "LineSplitter [''ab'', ''c\<newline>de'', ''f''] = LineSplitter [''abc\<newline>d'', ''ef''] \<and>
   LineSplitter [''ab'', ''c\<newline>de'', ''f''] = [''abc\<newline>'', ''def'']"
  using LineSplitter_chunk_independent
    [of "[''ab'', ''c\<newline>de'', ''f'']" "[''abc\<newline>d'', ''ef'']" "''abc\<newline>''" "''def''"
        "[''ab'', ''c\<newline>de'', ''f'']"]
  by (simp add: LF_def LineSplitter_def LineSplitter_flush_def)

text \<open>
  C3. With the pattern \<open>an\<close>, the lines apple, banana and grape give banana when the
  filter keeps the lines that contain the pattern, and apple and grape when it keeps
  the others. In general \<^verbatim>\<open>matchLine\<close> answers with the line iff the pattern is
  (respectively is not) a substring of the line.
\<close>

theorem substring_filter_scenarios:
  "FilterStream (accepts (matchLine (this\<lparr>inputstring := Some ''an'', notcontain := False\<rparr>)))
     [''apple\<newline>'', ''banana\<newline>'', ''grape\<newline>''] = [''banana\<newline>''] \<and>
   FilterStream (accepts (matchLine (this\<lparr>inputstring := Some ''an'', notcontain := True\<rparr>)))
     [''apple\<newline>'', ''banana\<newline>'', ''grape\<newline>''] = [''apple\<newline>'', ''grape\<newline>''] \<and>
   matchLine (this\<lparr>inputstring := Some pat, notcontain := False\<rparr>) line =
     (if sublist pat line then Some line else None) \<and>
   matchLine (this\<lparr>inputstring := Some pat, notcontain := True\<rparr>) line =
     (if sublist pat line then None else Some line)"
proof -
  have lines: "LineSplitter [''apple\<newline>'', ''banana\<newline>'', ''grape\<newline>''] =
      [''apple\<newline>'', ''banana\<newline>'', ''grape\<newline>'']"
    by (simp add: LineSplitter_def LineSplitter_flush_def LF_def)
  have a: "FilterStream (accepts (matchLine (this\<lparr>inputstring := Some ''an'', notcontain := False\<rparr>)))
     [''apple\<newline>'', ''banana\<newline>'', ''grape\<newline>''] = [''banana\<newline>'']"
    unfolding FilterStream_def lines transform_lines_filter
    by (simp add: line_content_def strip_terminator_def LF_def accepts_def matchLine_def)
  have b: "FilterStream (accepts (matchLine (this\<lparr>inputstring := Some ''an'', notcontain := True\<rparr>)))
     [''apple\<newline>'', ''banana\<newline>'', ''grape\<newline>''] = [''apple\<newline>'', ''grape\<newline>'']"
    unfolding FilterStream_def lines transform_lines_filter
    by (simp add: line_content_def strip_terminator_def LF_def accepts_def matchLine_def)
  from a b show ?thesis
    by (simp only: matchLine_contains matchLine_notcontain simp_thms)
qed

text \<open>
  C9. Filtering is idempotent: the transform applied to its own output with the same
  predicate removes nothing, on a list of lines and on the stream that the first pass
  wrote. The callbacks of both filters answer with the line unchanged or not at all.
\<close>

theorem filter_idempotent:
  "transform_lines predicate (transform_lines predicate ls) = transform_lines predicate ls \<and>
   FilterStream predicate (FilterStream predicate chunks) = FilterStream predicate chunks \<and>
   (matchLine this line = None \<or> matchLine this line = Some line) \<and>
   (matchLineRegex that line = None \<or> matchLineRegex that line = Some line)"
proof -
  let ?P = "\<lambda>l. predicate (line_content l)"
  let ?out = "filter ?P (text_lines (concat chunks))"
  have "lines_ok ?out" by (simp add: lines_ok_filter lines_ok_text_lines)
  then have "text_lines (concat ?out) = ?out" by (rule text_lines_concat)
  then have "FilterStream predicate (FilterStream predicate chunks) = FilterStream predicate chunks"
    by (simp add: FilterStream_filter)
  then show ?thesis
    using matchLine_answer [of this line] matchLineRegex_answer [of that line]
    by (simp add: transform_lines_filter)
qed

section \<open>Where the input is read from\<close>

lemma find_first:
  "\<forall>e\<in>set pre. \<not> P e \<Longrightarrow> P d \<Longrightarrow> List.find P (pre @ d # post) = Some d"
  by (induction pre) auto

lemma findOpenedDoc_first:
  "textDocuments h = pre @ doc # post \<Longrightarrow> \<forall>e\<in>set pre. path (uri e) \<noteq> path u \<Longrightarrow>
     path (uri doc) = path u \<Longrightarrow> findOpenedDoc h u = Some doc"
  by (simp add: findOpenedDoc_def find_first)

lemma findOpenedDoc_absent:
  "\<forall>e\<in>set (textDocuments h). path (uri e) \<noteq> path u \<Longrightarrow> findOpenedDoc h u = None"
  by (simp add: findOpenedDoc_def find_None_iff)

text \<open>
  What \<^verbatim>\<open>createInputStream\<close> computes from the list of open documents: the lookup
  goes by path alone and stops at the first match, whatever the scheme of that
  document.
\<close>

lemma createInputStream_first_document:
  "(textDocuments h = pre @ doc # post \<and> (\<forall>e\<in>set pre. path (uri e) \<noteq> path u) \<and>
      path (uri doc) = path u \<longrightarrow>
      createInputStream h u =
        (if scheme u = ''file'' then
           (if isDirty doc then ([], Inr (TextDocumentReadStream doc))
            else ([], Inr (FsReadStream (fsPath u))))
         else ([], Inr (TextDocumentReadStream doc)))) \<and>
   ((\<forall>e\<in>set (textDocuments h). path (uri e) \<noteq> path u) \<longrightarrow>
      createInputStream h u =
        (if scheme u = ''file'' then ([], Inr (FsReadStream (fsPath u)))
         else ([AppendLine ''Unable to find open document for provided URI''],
               Inl TextDocumentNotFound)))"
proof (intro conjI impI)
  assume "textDocuments h = pre @ doc # post \<and> (\<forall>e\<in>set pre. path (uri e) \<noteq> path u) \<and>
      path (uri doc) = path u"
  then have "findOpenedDoc h u = Some doc" by (simp add: findOpenedDoc_first)
  then show "createInputStream h u =
        (if scheme u = ''file'' then
           (if isDirty doc then ([], Inr (TextDocumentReadStream doc))
            else ([], Inr (FsReadStream (fsPath u))))
         else ([], Inr (TextDocumentReadStream doc)))"
    by (simp add: createInputStream_def)
next
  assume "\<forall>e\<in>set (textDocuments h). path (uri e) \<noteq> path u"
  then have "findOpenedDoc h u = None" by (rule findOpenedDoc_absent)
  then show "createInputStream h u =
        (if scheme u = ''file'' then ([], Inr (FsReadStream (fsPath u)))
         else ([AppendLine ''Unable to find open document for provided URI''],
               Inl TextDocumentNotFound))"
    by (simp add: createInputStream_def)
qed

text \<open>
  C5 at two open documents with the path of the source: the source has the scheme
  \<open>file\<close> and its own document is open and dirty, yet the disk is read, because the
  clean document of another scheme with the same path stands first in the list. With
  the same two documents in the other order the dirty document is read.
\<close>

theorem dirty_document_shadowed:
  "scheme notes_uri = ''file'' \<and>
   dirty_doc \<in> set (textDocuments shadow_host) \<and>
   uri dirty_doc = notes_uri \<and>
   path (uri dirty_doc) = path notes_uri \<and>
   isDirty dirty_doc \<and>
   createInputStream shadow_host notes_uri = ([], Inr (FsReadStream ''/home/u/notes.txt'')) \<and>
   createInputStream (example_host\<lparr>textDocuments := [dirty_doc, git_doc]\<rparr>) notes_uri =
     ([], Inr (TextDocumentReadStream dirty_doc))"
  by (simp add: shadow_host_def example_host_def dirty_doc_def git_doc_def notes_uri_def
      createInputStream_def findOpenedDoc_def)

section \<open>The name of the output file\<close>

lemma str_split_no_separator: "c \<notin> set s \<Longrightarrow> str_split c s = [s]"
  by (induction s) auto

lemma str_split_not_Nil: "str_split c s \<noteq> []"
  by (induction s) (auto split: list.splits)

lemma str_split_append:
  "str_split c (dir @ c # name) = str_split c dir @ str_split c name"
proof (induction dir)
  case Nil
  then show ?case by simp
next
  case (Cons x xs)
  obtain w ws where s: "str_split c xs = w # ws"
    using str_split_not_Nil [of c xs] by (cases "str_split c xs") auto
  with Cons show ?case by simp
qed

lemma last_str_split:
  "c \<notin> set name \<Longrightarrow> last (str_split c (dir @ c # name)) = name"
  by (simp add: str_split_append str_split_no_separator str_split_not_Nil)

lemma outBase_without_dot:
  "scheme u = ''file'' \<Longrightarrow> CHR ''.'' \<notin> set (last (str_split (sep h) (fsPath u))) \<Longrightarrow>
     outBase h u = []"
  by (simp add: outBase_def str_split_no_separator)

lemma moved_file_keeps_name:
  assumes "sep h \<notin> set (outName h u)"
    and "fsPath (Uri_parse h (''file:'' @ outPath h u)) = outPath h u"
  shows "last (str_split (sep h) (fsPath (Uri_parse h (''file:'' @ outPath h u)))) = outName h u"
  using assms by (simp add: outPath_def last_str_split)

text \<open>
  C8 at a source without extension: for the file \<open>/home/u/Makefile\<close> the base of the
  output name is empty, not \<open>Makefile\<close>; the temporary file is \<open>/tmp/.filterline-\<close>
  followed by the timestamp. A source with an extension gets its base name.
\<close>

theorem outPath_without_extension:
  "outBase example_host makefile_uri = [] \<and>
   outExt example_host makefile_uri = [] \<and>
   outPath example_host makefile_uri = ''/tmp/.filterline-1700000000000'' \<and>
   outPath example_host notes_uri = ''/tmp/notes.filterline-1700000000000.txt''"
  by (simp add: outPath_def outName_def outBase_def outExt_def TAIL_def example_host_def
      makefile_uri_def notes_uri_def posix_extname_def)

section \<open>Placing the result\<close>

lemma process_events:
  "process h cb u = (ev, r) \<Longrightarrow> filter is_insert ev = [] \<and> filter is_unlink_or_move ev = []"
  by (auto simp: process_def createInputStream_def split: prod.splits sum.splits option.splits if_splits)

text \<open>
  C4. When saving is switched off, the pipeline has written the temporary file and the
  file is larger than 30 MiB, the run shows a warning, opens the temporary file itself
  and reports completion; it inserts nothing into an editor and neither moves nor
  removes the file.
\<close>

theorem large_output_keeps_temp_file:
  assumes "\<not> saveAfterFiltering h"
    and "process h filterCallback u = (ev, Inr tmpPath)"
    and "30 * 1024 * 1024 < stat_size h (fsPath tmpPath)"
  shows "filter_private h filterCallback u =
      (ev @
       [AppendLine (''Filtered content is larger then Visual Studio Code '' @
            ''limitations. Saved into temporary folder''),
        ShowWarningMessage (''Filtered content is larger then Visual Studio Code '' @
            ''limitations. Saved into temporary folder''),
        OpenTextDocument tmpPath,
        ShowTextDocument tmpPath,
        AppendLine ''Filtering completed :)'',
        ShowInformationMessage ''Filtering completed :)''], Inr ()) \<and>
    filter is_insert (fst (filter_private h filterCallback u)) = [] \<and>
    filter is_unlink_or_move (fst (filter_private h filterCallback u)) = []"
proof -
  from assms have run: "filter_private h filterCallback u =
      (ev @
       [AppendLine (''Filtered content is larger then Visual Studio Code '' @
            ''limitations. Saved into temporary folder''),
        ShowWarningMessage (''Filtered content is larger then Visual Studio Code '' @
            ''limitations. Saved into temporary folder''),
        OpenTextDocument tmpPath,
        ShowTextDocument tmpPath,
        AppendLine ''Filtering completed :)'',
        ShowInformationMessage ''Filtering completed :)''], Inr ())"
    by (simp add: filter_private_def LARGE_MODE_THR_def showWarning_def finish_def showInfo_def)
  from process_events [OF assms(2)]
  have "filter is_insert ev = []" and "filter is_unlink_or_move ev = []" by simp_all
  with run show ?thesis by simp
qed

lemma process_notes:
  assumes "textDocuments h = []" and "sep h = CHR ''/''" and "tmpdir h = ''/tmp''"
    and "extname h = posix_extname" and "timestamp h = ''1700000000000''"
    and "Uri_parse h = posix_parse"
    and "chunks_of h = (\<lambda>r. [''apple\<newline>ban'', ''ana\<newline>grape\<newline>''])"
  shows "process h (matchLine example_filter) notes_uri =
      ([WriteStream ''/tmp/notes.filterline-1700000000000.txt'' [''banana\<newline>'']],
       Inr \<lparr>scheme = ''file'', path = ''/tmp/notes.filterline-1700000000000.txt'',
            fsPath = ''/tmp/notes.filterline-1700000000000.txt''\<rparr>)"
proof -
  have lines: "LineSplitter [''apple\<newline>ban'', ''ana\<newline>grape\<newline>''] =
      [''apple\<newline>'', ''banana\<newline>'', ''grape\<newline>'']"
    by (simp add: LineSplitter_def LineSplitter_flush_def LF_def)
  have out: "FilterStream (accepts (matchLine example_filter))
      [''apple\<newline>ban'', ''ana\<newline>grape\<newline>''] = [''banana\<newline>'']"
    unfolding FilterStream_def lines transform_lines_filter
    by (simp add: line_content_def strip_terminator_def LF_def accepts_def matchLine_def
        example_filter_def)
  from assms show ?thesis
    by (simp add: process_def createInputStream_def findOpenedDoc_def out outPath_def
        outName_def outBase_def outExt_def TAIL_def notes_uri_def posix_extname_def
        posix_parse_def Let_def)
qed

theorem large_output_keeps_temp_file_witness:
  "filter_private large_host (matchLine example_filter) notes_uri =
     ([WriteStream ''/tmp/notes.filterline-1700000000000.txt'' [''banana\<newline>''],
       AppendLine (''Filtered content is larger then Visual Studio Code '' @
            ''limitations. Saved into temporary folder''),
       ShowWarningMessage (''Filtered content is larger then Visual Studio Code '' @
            ''limitations. Saved into temporary folder''),
       OpenTextDocument \<lparr>scheme = ''file'', path = ''/tmp/notes.filterline-1700000000000.txt'',
            fsPath = ''/tmp/notes.filterline-1700000000000.txt''\<rparr>,
       ShowTextDocument \<lparr>scheme = ''file'', path = ''/tmp/notes.filterline-1700000000000.txt'',
            fsPath = ''/tmp/notes.filterline-1700000000000.txt''\<rparr>,
       AppendLine ''Filtering completed :)'',
       ShowInformationMessage ''Filtering completed :)''], Inr ())"
proof -
  have p: "process large_host (matchLine example_filter) notes_uri =
      ([WriteStream ''/tmp/notes.filterline-1700000000000.txt'' [''banana\<newline>'']],
       Inr \<lparr>scheme = ''file'', path = ''/tmp/notes.filterline-1700000000000.txt'',
            fsPath = ''/tmp/notes.filterline-1700000000000.txt''\<rparr>)"
    using process_notes [of large_host] by (simp add: large_host_def example_host_def)
  have s: "\<not> saveAfterFiltering large_host" by (simp add: large_host_def example_host_def)
  have z: "30 * 1024 * 1024 < stat_size large_host (fsPath \<lparr>scheme = ''file'',
      path = ''/tmp/notes.filterline-1700000000000.txt'',
      fsPath = ''/tmp/notes.filterline-1700000000000.txt''\<rparr>)"
    by (simp add: large_host_def example_host_def)
  from large_output_keeps_temp_file [OF s p z] show ?thesis by simp
qed

text \<open>
  C7, as the code has it. When saving is switched on, the source has the scheme
  \<open>file\<close>, the pipeline has written the temporary file and the move fails, the run
  shows an error message, opens the temporary file itself and reports completion.
\<close>

theorem failed_move_keeps_temp_file:
  assumes "saveAfterFiltering h"
    and "scheme u = ''file''"
    and "move_fails h"
    and "process h filterCallback u = (ev, Inr tmpPath)"
  shows "filter_private h filterCallback u =
      (ev @
       [MoveAsync (fsPath tmpPath)
          (fsPath (Uri_parse h
             (str_join (sep h) (butlast (str_split (sep h) (fsPath u))) @ [sep h] @
              last (str_split (sep h) (fsPath tmpPath))))),
        AppendLine (''Error occurred on save file to origin folder. '' @
            ''Saved into temporary folder''),
        ShowErrorMessage (''Error occurred on save file to origin folder. '' @
            ''Saved into temporary folder''),
        OpenTextDocument tmpPath,
        ShowTextDocument tmpPath,
        AppendLine ''Filtering completed :)'',
        ShowInformationMessage ''Filtering completed :)''], Inr ())"
  using assms
  by (simp add: filter_private_def Let_def showError_def finish_def showInfo_def)

theorem failed_move_keeps_temp_file_witness:
  "filter_private readonly_host (matchLine example_filter) notes_uri =
     ([WriteStream ''/tmp/notes.filterline-1700000000000.txt'' [''banana\<newline>''],
       MoveAsync ''/tmp/notes.filterline-1700000000000.txt''
         ''/home/u/notes.filterline-1700000000000.txt'',
       AppendLine (''Error occurred on save file to origin folder. '' @
            ''Saved into temporary folder''),
       ShowErrorMessage (''Error occurred on save file to origin folder. '' @
            ''Saved into temporary folder''),
       OpenTextDocument \<lparr>scheme = ''file'', path = ''/tmp/notes.filterline-1700000000000.txt'',
            fsPath = ''/tmp/notes.filterline-1700000000000.txt''\<rparr>,
       ShowTextDocument \<lparr>scheme = ''file'', path = ''/tmp/notes.filterline-1700000000000.txt'',
            fsPath = ''/tmp/notes.filterline-1700000000000.txt''\<rparr>,
       AppendLine ''Filtering completed :)'',
       ShowInformationMessage ''Filtering completed :)''], Inr ())"
proof -
  have p: "process readonly_host (matchLine example_filter) notes_uri =
      ([WriteStream ''/tmp/notes.filterline-1700000000000.txt'' [''banana\<newline>'']],
       Inr \<lparr>scheme = ''file'', path = ''/tmp/notes.filterline-1700000000000.txt'',
            fsPath = ''/tmp/notes.filterline-1700000000000.txt''\<rparr>)"
    using process_notes [of readonly_host] by (simp add: readonly_host_def example_host_def)
  have s: "saveAfterFiltering readonly_host" "move_fails readonly_host"
    by (simp_all add: readonly_host_def example_host_def)
  have f: "scheme notes_uri = ''file''" by (simp add: notes_uri_def)
  from failed_move_keeps_temp_file [OF s(1) f s(2) p] show ?thesis
    by (simp add: readonly_host_def example_host_def notes_uri_def posix_parse_def Let_def)
qed

text \<open>
  C7 as stated fails: on a host where saving is switched on and the move fails, the
  run for a source with the scheme \<open>file\<close> shows no notification of warning severity.
\<close>

theorem failed_move_shows_no_warning:
  "saveAfterFiltering readonly_host \<and>
   scheme notes_uri = ''file'' \<and>
   move_fails readonly_host \<and>
   filter is_warning (fst (filter_private readonly_host (matchLine example_filter) notes_uri)) = []"
proof -
  have p: "process readonly_host (matchLine example_filter) notes_uri =
      ([WriteStream ''/tmp/notes.filterline-1700000000000.txt'' [''banana\<newline>'']],
       Inr \<lparr>scheme = ''file'', path = ''/tmp/notes.filterline-1700000000000.txt'',
            fsPath = ''/tmp/notes.filterline-1700000000000.txt''\<rparr>)"
    using process_notes [of readonly_host] by (simp add: readonly_host_def example_host_def)
  have s: "saveAfterFiltering readonly_host" "move_fails readonly_host"
    by (simp_all add: readonly_host_def example_host_def)
  have f: "scheme notes_uri = ''file''" by (simp add: notes_uri_def)
  show ?thesis
    by (simp add: s f p filter_private_def Let_def showError_def finish_def showInfo_def)
qed

section \<open>Patterns that start no run\<close>

text \<open>
  C6. When the source is known, the user has entered a non-empty pattern and
  \<^verbatim>\<open>new RegExp\<close> throws on it, the command logs the error, shows it as an error
  message and stops: the calls made are log lines and that message only, the object and
  its history are unchanged, and nothing is written.
\<close>

theorem invalid_regex_aborts:
  assumes "getSourceUri h filePath = ([], Some srcUri)"
    and "usrChoice h = Some pat"
    and "pat \<noteq> []"
    and "RegExp_new h pat = Inl e"
  shows "prepareRegex h this =
      (this, [AppendLine (''Regex is incorrect: '' @ e),
              AppendLine (''Regex incorrect :'' @ e),
              ShowErrorMessage (''Regex incorrect :'' @ e)], Some False) \<and>
    filter_command prepareRegex matchLineRegex h this filePath =
      (this,
       [AppendLine (''will filter file: '' @ path srcUri),
        AppendLine (''Regex is incorrect: '' @ e),
        AppendLine (''Regex incorrect :'' @ e),
        ShowErrorMessage (''Regex incorrect :'' @ e),
        AppendLine ''Succeed false''], None)"
  using assms by (simp add: filter_command_def prepareRegex_def showError_def)

theorem invalid_regex_aborts_witness:
  "filter_command prepareRegex matchLineRegex (example_host\<lparr>usrChoice := Some ''(''\<rparr>)
     example_regex_filter (Some notes_uri) =
      (example_regex_filter,
       [AppendLine ''will filter file: /home/u/notes.txt'',
        AppendLine ''Regex is incorrect: SyntaxError: Unterminated group'',
        AppendLine ''Regex incorrect :SyntaxError: Unterminated group'',
        ShowErrorMessage ''Regex incorrect :SyntaxError: Unterminated group'',
        AppendLine ''Succeed false''], None)"
proof -
  let ?h = "example_host\<lparr>usrChoice := Some ''(''\<rparr>"
  have a: "getSourceUri ?h (Some notes_uri) = ([], Some notes_uri)"
    by (simp add: getSourceUri_def)
  have b: "usrChoice ?h = Some ''(''" by simp
  have c: "''('' \<noteq> []" by simp
  have d: "RegExp_new ?h ''('' = Inl ''SyntaxError: Unterminated group''"
    by (simp add: example_host_def)
  from invalid_regex_aborts [OF a b c d, of example_regex_filter] show ?thesis
    by (simp add: notes_uri_def)
qed

text \<open>
  C10. When the user accepts the empty entry, \<^verbatim>\<open>prepare\<close> of either filter logs one
  line and calls back with \<open>false\<close>, leaving the object and its history as they were;
  the command then logs the outcome and stops, and nothing is written.
\<close>

theorem empty_pattern_aborts:
  assumes "usrChoice h = Some []"
  shows "prepare h this = (this, [AppendLine ''User input is an empty''], Some False) \<and>
    prepareRegex h that = (that, [AppendLine ''User input is an empty''], Some False) \<and>
    (getSourceUri h filePath = ([], Some srcUri) \<longrightarrow>
       filter_command prepare matchLine h this filePath =
         (this,
          [AppendLine (''will filter file: '' @ path srcUri),
           AppendLine ''User input is an empty'',
           AppendLine ''Succeed false''], None) \<and>
       filter_command prepareRegex matchLineRegex h that filePath =
         (that,
          [AppendLine (''will filter file: '' @ path srcUri),
           AppendLine ''User input is an empty'',
           AppendLine ''Succeed false''], None))"
  using assms by (simp add: filter_command_def prepare_def prepareRegex_def)

theorem empty_pattern_aborts_witness:
  "filter_command prepare matchLine (example_host\<lparr>usrChoice := Some []\<rparr>)
     example_filter (Some notes_uri) =
      (example_filter,
       [AppendLine ''will filter file: /home/u/notes.txt'',
        AppendLine ''User input is an empty'',
        AppendLine ''Succeed false''], None) \<and>
   filter_command prepareRegex matchLineRegex (example_host\<lparr>usrChoice := Some []\<rparr>)
     example_regex_filter (Some notes_uri) =
      (example_regex_filter,
       [AppendLine ''will filter file: /home/u/notes.txt'',
        AppendLine ''User input is an empty'',
        AppendLine ''Succeed false''], None)"
proof -
  let ?h = "example_host\<lparr>usrChoice := Some []\<rparr>"
  have a: "usrChoice ?h = Some []" by simp
  have b: "getSourceUri ?h (Some notes_uri) = ([], Some notes_uri)"
    by (simp add: getSourceUri_def)
  from empty_pattern_aborts [OF a, of example_filter example_regex_filter "Some notes_uri" notes_uri] b
  show ?thesis by (simp add: notes_uri_def)
qed

end
